theory Spec2Isabelle
  imports Main "HOL-Library.Word"
begin

section \<open>The shower monitor of EMS-ESP (src/shower.cpp)\<close>

text \<open>
  The class \<open>Shower\<close> watches the boolean "hot tap water is running" signal of the
  boiler. Its method \<open>loop()\<close> is called periodically; it recognises a shower from
  elapsed-time thresholds, publishes the state and the duration over MQTT, and may cut the
  hot water for a while (the cold shot). The embedding below follows shower.cpp function
  by function. Everything \<open>loop()\<close> reads from its environment is an input record, every
  call it makes to MQTT or to the boiler is an element of the returned effect list, and
  the members it assigns are the fields of a state record. Logger calls are left out.
\<close>

subsection \<open>Data\<close>

type_synonym u32 = "32 word"

text \<open>
  The three threshold constants are declared in shower.h, which is not part of the
  sources at hand. They are taken as parameters, so that every theorem holds for
  whatever values the header gives them. They are compared with \<open>uint32_t\<close> differences.
\<close>

record header =
  SHOWER_PAUSE_TIME :: u32
  SHOWER_MIN_DURATION :: u32
  SHOWER_OFFSET_TIME :: u32

text \<open>
  The members that \<open>start()\<close> loads from the settings and that nothing else assigns
  (lines 29 to 32).
\<close>

record config =
  shower_timer :: bool
  shower_alert :: bool
  shower_alert_trigger :: u32
  shower_alert_coldshot :: u32

text \<open>
  The members that \<open>loop()\<close> and its helpers assign, together with the two static
  variables of the file: \<open>force_coldshot\<close> (line 25) and \<open>old_shower_state\<close> (line 168,
  local to \<open>set_shower_state\<close>). The timestamps are \<open>uint32_t\<close>, as the local
  \<open>time_now\<close> of line 63 and the comment of line 98 say; the value 0 means "unset".
  A name cannot end with an underscore here, so the member \<open>timer_start_\<close> of the
  source is the field \<open>timer_start\<close>, and so on for every member.
\<close>

record shower =
  timer_start :: u32
  timer_pause :: u32
  duration :: u32
  alert_timer_start :: u32
  shower_state :: bool
  doing_cold_shot :: bool
  ha_configdone :: bool
  force_coldshot :: bool
  old_shower_state :: bool

text \<open>
  What one call of \<open>loop()\<close> can read from its environment:
  \<^item> \<open>uptime\<close>: \<open>uuid::get_uptime()\<close> at line 63;
  \<^item> \<open>tap_water_active\<close>: \<open>EMSESP::tap_water_active()\<close> at line 68;
  \<^item> \<open>uptime_alert\<close>: the second reading \<open>uuid::get_uptime()\<close> at line 147;
  \<^item> \<open>wallclock\<close>: \<open>time(nullptr)\<close> at line 106;
  \<^item> \<open>ha_enabled\<close>: \<open>Mqtt::ha_enabled()\<close> at line 179;
  \<^item> \<open>queue_ha_result\<close>: what the first \<open>Mqtt::queue_ha\<close> returns at line 221.
\<close>

record tick =
  uptime :: u32
  tap_water_active :: bool
  uptime_alert :: u32
  wallclock :: int
  ha_enabled :: bool
  queue_ha_result :: bool

datatype ha_topic = Shower_active_config | Shower_duration_config | Shower_timestamp_config

text \<open>
  The calls to the collaborators:
  \<^item> \<open>Publish_shower_active b\<close>: \<open>Mqtt::queue_publish("shower_active", b)\<close>, line 176;
  \<^item> \<open>Publish_shower_data d t\<close>: \<open>Mqtt::queue_publish("shower_data", doc)\<close>, line 118,
    where \<open>d\<close> is \<open>doc["duration"]\<close> in seconds and \<open>t\<close> is the wall-clock time that
    \<open>doc["timestamp"]\<close> renders, absent when the clock is not set;
  \<^item> \<open>Call_wwtapactivated b\<close>: \<open>Command::call(BOILER, "wwtapactivated", b)\<close>,
    lines 144 and 154;
  \<^item> \<open>Queue_ha t\<close>: one of the three Home Assistant discovery documents, lines 221,
    251 and 278 (their payload is not modelled).
\<close>

datatype effect =
    Publish_shower_active bool
  | Publish_shower_data u32 "int option"
  | Call_wwtapactivated bool
  | Queue_ha ha_topic

subsection \<open>The helpers of \<open>loop()\<close>\<close>

text \<open>\<open>Shower::set_shower_state(state, force)\<close>, lines 163 to 280.\<close>

definition set_shower_state :: "bool \<Rightarrow> bool \<Rightarrow> tick \<Rightarrow> shower \<Rightarrow> shower \<times> effect list" where
  "set_shower_state state force i s =
     (let s1 = s\<lparr>shower_state := state\<rparr> in
      if shower_state s1 = old_shower_state s1 \<and> \<not> force then (s1, [])
      else
        let s2 = s1\<lparr>old_shower_state := shower_state s1\<rparr>;
            pub = [Publish_shower_active (shower_state s2)]
        in if ha_enabled i \<and> (\<not> ha_configdone s2 \<or> force)
           then (s2\<lparr>ha_configdone := queue_ha_result i\<rparr>,
                 pub @ [Queue_ha Shower_active_config, Queue_ha Shower_duration_config,
                        Queue_ha Shower_timestamp_config])
           else (s2, pub))"

text \<open>\<open>Shower::shower_alert_start()\<close>, lines 142 to 148.\<close>

definition shower_alert_start :: "tick \<Rightarrow> shower \<Rightarrow> shower \<times> effect list" where
  "shower_alert_start i s =
     (s\<lparr>doing_cold_shot := True, force_coldshot := False, alert_timer_start := uptime_alert i\<rparr>,
      [Call_wwtapactivated False])"

text \<open>\<open>Shower::shower_alert_stop()\<close>, lines 151 to 158.\<close>

definition shower_alert_stop :: "shower \<Rightarrow> shower \<times> effect list" where
  "shower_alert_stop s =
     (if doing_cold_shot s
      then (s\<lparr>doing_cold_shot := False, force_coldshot := False\<rparr>, [Call_wwtapactivated True])
      else (s, []))"

subsection \<open>\<open>Shower::loop()\<close>\<close>

text \<open>
  Lines 99 to 120: the duration of the finished shower, and its publication when it is
  longer than \<open>SHOWER_MIN_DURATION\<close>. The timestamp is added when the wall clock is past
  1576800000 (line 108).
\<close>

definition publish_duration :: "header \<Rightarrow> tick \<Rightarrow> shower \<Rightarrow> shower \<times> effect list" where
  "publish_duration K i s =
     (if timer_pause s - timer_start s > SHOWER_OFFSET_TIME K
      then
        let s1 = s\<lparr>duration := timer_pause s - timer_start s - SHOWER_OFFSET_TIME K\<rparr>
        in if duration s1 > SHOWER_MIN_DURATION K
           then (s1, [Publish_shower_data (duration s1 div 1000)
                        (if wallclock i > 1576800000 then Some (wallclock i) else None)])
           else (s1, [])
      else (s, []))"

text \<open>Lines 70 to 88: the hot water is running.\<close>

definition tap_on :: "header \<Rightarrow> config \<Rightarrow> tick \<Rightarrow> shower \<Rightarrow> shower \<times> effect list" where
  "tap_on K c i s =
     (let time_now = uptime i in
      if timer_start s = 0
      then (s\<lparr>timer_start := time_now, timer_pause := 0, doing_cold_shot := False,
              duration := 0, shower_state := False\<rparr>, [])
      else if \<not> shower_state s \<and> time_now - timer_start s > SHOWER_MIN_DURATION K
      then set_shower_state True False i s
      else if (shower_alert c \<and> time_now - timer_start s > shower_alert_trigger c)
              \<or> force_coldshot s
      then shower_alert_start i s
      else (s, []))"

text \<open>Lines 89 to 130: the hot water is off.\<close>

definition tap_off :: "header \<Rightarrow> tick \<Rightarrow> shower \<Rightarrow> shower \<times> effect list" where
  "tap_off K i s =
     (let time_now = uptime i;
          s1 = (if timer_start s \<noteq> 0 \<and> timer_pause s = 0
                then s\<lparr>timer_pause := time_now\<rparr> else s)
      in if timer_pause s1 \<noteq> 0 \<and> time_now - timer_pause s1 > SHOWER_PAUSE_TIME K
         then
           let (s2, e2) = publish_duration K i s1;
               s3 = s2\<lparr>timer_start := 0, timer_pause := 0, doing_cold_shot := False,
                       alert_timer_start := 0\<rparr>;
               (s4, e4) = set_shower_state False False i s3
           in (s4, e2 @ e4)
         else (s1, []))"

text \<open>The whole of \<open>loop()\<close>, lines 58 to 139.\<close>

definition loop :: "header \<Rightarrow> config \<Rightarrow> tick \<Rightarrow> shower \<Rightarrow> shower \<times> effect list" where
  "loop K c i s =
     (if \<not> shower_timer c then (s, [])
      else if \<not> doing_cold_shot s
      then (if tap_water_active i then tap_on K c i s else tap_off K i s)
      else if uptime i - alert_timer_start s > shower_alert_coldshot c
      then shower_alert_stop s
      else (s, []))"

subsection \<open>The coldshot command and \<open>start()\<close>\<close>

text \<open>
  The handler that \<open>start()\<close> registers for the command \<open>coldshot\<close>, lines 38 to 49.
  It returns \<open>output["message"]\<close>, the handler's return value, and the new state.
\<close>

definition coldshot_cmd :: "shower \<Rightarrow> (string \<times> bool) \<times> shower" where
  "coldshot_cmd s =
     (if shower_state s
      then ((''OK'', True), s\<lparr>force_coldshot := True\<rparr>)
      else ((''Coldshot failed. Shower not active'', True), s\<lparr>force_coldshot := False\<rparr>))"

text \<open>
  Modelled from the spec: the values of the members before \<open>start()\<close> runs. Their
  declarations are in shower.h, which is not among the sources; the spec has every
  timestamp unset and every flag false in the initial state \<open>IDLE\<close>.
\<close>

definition initial :: shower where
  "initial = \<lparr>timer_start = 0, timer_pause = 0, duration = 0, alert_timer_start = 0,
     shower_state = False, doing_cold_shot = False, ha_configdone = False,
     force_coldshot = False, old_shower_state = False\<rparr>"

text \<open>
  \<open>Shower::start()\<close>, lines 27 to 56, after the settings have been read into \<open>c\<close>:
  when the timer is enabled, the state "off" is published whatever it was. The
  conversion of the settings to milliseconds (lines 31 and 32) is not modelled: \<open>c\<close>
  holds the members as they are after it.
\<close>

definition start :: "config \<Rightarrow> tick \<Rightarrow> shower \<Rightarrow> shower \<times> effect list" where
  "start c i s = (if shower_timer c then set_shower_state False True i s else (s, []))"

subsection \<open>Runs\<close>

text \<open>A run of \<open>loop()\<close> over the successive inputs, collecting the effects in order.\<close>

fun run_loop :: "header \<Rightarrow> config \<Rightarrow> tick list \<Rightarrow> shower \<Rightarrow> shower \<times> effect list" where
  "run_loop K c [] s = (s, [])"
| "run_loop K c (i # is) s =
     (let (s1, e1) = loop K c i s; (s2, e2) = run_loop K c is s1 in (s2, e1 @ e2))"

text \<open>
  The two entry points that the rest of the firmware calls after \<open>start()\<close>: the
  periodic \<open>loop()\<close> and the coldshot command.
\<close>

datatype call = Loop tick | Coldshot

fun exec :: "header \<Rightarrow> config \<Rightarrow> call \<Rightarrow> shower \<Rightarrow> shower \<times> effect list" where
  "exec K c (Loop i) s = loop K c i s"
| "exec K c Coldshot s = (snd (coldshot_cmd s), [])"

fun run :: "header \<Rightarrow> config \<Rightarrow> call list \<Rightarrow> shower \<Rightarrow> shower \<times> effect list" where
  "run K c [] s = (s, [])"
| "run K c (a # as) s =
     (let (s1, e1) = exec K c a s; (s2, e2) = run K c as s1 in (s2, e1 @ e2))"



text \<open>
  The guard under which a call of \<open>loop()\<close> with the tap off runs the reset block of
  lines 122 to 128, that is, closes the session: the conditions of lines 59, 66, 68, 91
  and 96.
\<close>

definition closes_session :: "header \<Rightarrow> config \<Rightarrow> tick \<Rightarrow> shower \<Rightarrow> bool" where
  "closes_session K c i s \<longleftrightarrow>
     shower_timer c \<and> \<not> doing_cold_shot s \<and> \<not> tap_water_active i \<and>
     (let p = (if timer_start s \<noteq> 0 \<and> timer_pause s = 0 then uptime i else timer_pause s)
      in p \<noteq> 0 \<and> uptime i - p > SHOWER_PAUSE_TIME K)"


subsection \<open>Concrete inputs\<close>

text \<open>
  Modelled from the spec: the values of the three constants of shower.h, which is not
  among the sources. The spec gives a pause tolerance of 15 s, a minimum duration of
  180 s and an offset of 5 s. They are used for the concrete runs only.
\<close>

definition spec_header :: header where
  "spec_header =
     \<lparr>SHOWER_PAUSE_TIME = 15000, SHOWER_MIN_DURATION = 180000, SHOWER_OFFSET_TIME = 5000\<rparr>"

text \<open>The timer enabled, without and with the alert (after 10 minutes, for 10 seconds).\<close>

definition timer_only :: config where
  "timer_only = \<lparr>shower_timer = True, shower_alert = False,
     shower_alert_trigger = 600000, shower_alert_coldshot = 10000\<rparr>"

definition timer_and_alert :: config where
  "timer_and_alert = \<lparr>shower_timer = True, shower_alert = True,
     shower_alert_trigger = 600000, shower_alert_coldshot = 10000\<rparr>"

text \<open>
  A call of \<open>loop()\<close> at uptime \<open>t\<close> with the tap reading \<open>b\<close>, the wall clock not set
  and Home Assistant discovery disabled.
\<close>

definition sample :: "u32 \<Rightarrow> bool \<Rightarrow> tick" where
  "sample t b = \<lparr>uptime = t, tap_water_active = b, uptime_alert = t, wallclock = 0,
     ha_enabled = False, queue_ha_result = False\<rparr>"

section \<open>Properties\<close>

subsection \<open>Basic facts about the helpers\<close>

lemma run_loop_append:
  "run_loop K c (xs @ ys) s =
     (let (s1, e1) = run_loop K c xs s; (s2, e2) = run_loop K c ys s1 in (s2, e1 @ e2))"
  by (induction xs arbitrary: s) (simp_all add: Let_def split: prod.splits)

lemma run_loop_disabled: "\<not> shower_timer c \<Longrightarrow> run_loop K c xs s = (s, [])"
  by (induction xs) (simp_all add: loop_def)


text \<open>\<open>set_shower_state\<close> assigns \<open>shower_state\<close> and leaves the timers alone.\<close>

lemma set_shower_state_fields:
  "timer_start (fst (set_shower_state b f i s)) = timer_start s"
  "timer_pause (fst (set_shower_state b f i s)) = timer_pause s"
  "doing_cold_shot (fst (set_shower_state b f i s)) = doing_cold_shot s"
  "force_coldshot (fst (set_shower_state b f i s)) = force_coldshot s"
  "alert_timer_start (fst (set_shower_state b f i s)) = alert_timer_start s"
  "shower_state (fst (set_shower_state b f i s)) = b"
  by (simp_all add: set_shower_state_def Let_def)

lemma set_shower_state_publishes:
  "Publish_shower_active True \<in> set (snd (set_shower_state b f i s)) \<Longrightarrow> b"
  by (auto simp add: set_shower_state_def Let_def split: if_splits)


lemma publish_duration_fields:
  "doing_cold_shot (fst (publish_duration K i s)) = doing_cold_shot s"
  "shower_state (fst (publish_duration K i s)) = shower_state s"
  "old_shower_state (fst (publish_duration K i s)) = old_shower_state s"
  "force_coldshot (fst (publish_duration K i s)) = force_coldshot s"
  by (simp_all add: publish_duration_def Let_def)

lemma publish_duration_effects:
  "snd (publish_duration K i s) =
     (if timer_pause s - timer_start s > SHOWER_OFFSET_TIME K \<and>
         timer_pause s - timer_start s - SHOWER_OFFSET_TIME K > SHOWER_MIN_DURATION K
      then [Publish_shower_data ((timer_pause s - timer_start s - SHOWER_OFFSET_TIME K) div 1000)
              (if wallclock i > 1576800000 then Some (wallclock i) else None)]
      else [])"
  by (simp add: publish_duration_def Let_def)

subsection \<open>A disabled monitor does nothing\<close>

text \<open>
  C8. When \<open>shower_timer_\<close> is false, a call of \<open>loop()\<close> returns the state it was given
  and makes no call to MQTT or to the boiler, whatever the clock, the tap and the other
  inputs read: the result does not depend on the input record at all.
\<close>

theorem loop_disabled_noop:
  "\<not> shower_timer c \<Longrightarrow> loop K c i s = (s, []) \<and> loop K c i s = loop K c j s"
  by (simp add: loop_def)

theorem loop_disabled_noop_witness:
  "\<not> shower_timer (timer_and_alert\<lparr>shower_timer := False\<rparr>) \<and>
   loop spec_header (timer_and_alert\<lparr>shower_timer := False\<rparr>) (sample 700000 True)
        (initial\<lparr>timer_start := 1000, shower_state := True\<rparr>)
     = (initial\<lparr>timer_start := 1000, shower_state := True\<rparr>, [])"
  using loop_disabled_noop [of "timer_and_alert\<lparr>shower_timer := False\<rparr>" spec_header
      "sample 700000 True" "initial\<lparr>timer_start := 1000, shower_state := True\<rparr>"]
  by (simp add: timer_and_alert_def)

subsection \<open>The coldshot command\<close>

text \<open>
  C4. A coldshot command that arrives while no shower is recognised (\<open>shower_state_\<close>
  false) answers with the message "Coldshot failed. Shower not active", calls neither
  MQTT nor the boiler, and changes nothing of the state except that it clears
  \<open>force_coldshot\<close>. A command that arrives while a shower is recognised answers "OK"
  and sets \<open>force_coldshot\<close>. In both cases the handler itself returns true.
\<close>

theorem coldshot_cmd_gate:
  "(\<not> shower_state s \<longrightarrow>
      coldshot_cmd s =
        ((''Coldshot failed. Shower not active'', True), s\<lparr>force_coldshot := False\<rparr>) \<and>
      exec K c Coldshot s = (s\<lparr>force_coldshot := False\<rparr>, [])) \<and>
   (shower_state s \<longrightarrow>
      coldshot_cmd s = ((''OK'', True), s\<lparr>force_coldshot := True\<rparr>) \<and>
      exec K c Coldshot s = (s\<lparr>force_coldshot := True\<rparr>, []))"
  by (simp add: coldshot_cmd_def)

theorem coldshot_cmd_gate_witness:
  "\<not> shower_state (initial\<lparr>force_coldshot := True\<rparr>) \<and>
   coldshot_cmd (initial\<lparr>force_coldshot := True\<rparr>) =
     ((''Coldshot failed. Shower not active'', True), initial) \<and>
   exec spec_header timer_only Coldshot (initial\<lparr>force_coldshot := True\<rparr>) = (initial, []) \<and>
   shower_state (initial\<lparr>shower_state := True\<rparr>) \<and>
   coldshot_cmd (initial\<lparr>shower_state := True\<rparr>) =
     ((''OK'', True), initial\<lparr>shower_state := True, force_coldshot := True\<rparr>)"
  using coldshot_cmd_gate [of "initial\<lparr>force_coldshot := True\<rparr>" spec_header timer_only]
    coldshot_cmd_gate [of "initial\<lparr>shower_state := True\<rparr>" spec_header timer_only]
  by (simp add: initial_def)

subsection \<open>Ticks after the end of a session\<close>

lemma loop_idle_tap_off:
  "timer_start s = 0 \<Longrightarrow> timer_pause s = 0 \<Longrightarrow> \<not> doing_cold_shot s \<Longrightarrow>
   \<not> tap_water_active i \<Longrightarrow> loop K c i s = (s, [])"
  by (simp add: loop_def tap_off_def)

lemma run_loop_idle_tap_off:
  "timer_start s = 0 \<Longrightarrow> timer_pause s = 0 \<Longrightarrow> \<not> doing_cold_shot s \<Longrightarrow>
   \<forall>j\<in>set js. \<not> tap_water_active j \<Longrightarrow> run_loop K c js s = (s, [])"
  by (induction js) (simp_all add: loop_idle_tap_off)

lemma closes_session_idle:
  assumes "closes_session K c i s"
  shows "timer_start (fst (loop K c i s)) = 0 \<and> timer_pause (fst (loop K c i s)) = 0 \<and>
         \<not> doing_cold_shot (fst (loop K c i s))"
  using assms
  by (simp add: closes_session_def loop_def tap_off_def Let_def set_shower_state_fields
      case_prod_beta split: if_splits)

text \<open>
  C7. Once a call of \<open>loop()\<close> has closed the session (it ran the reset block of lines
  122 to 128), any number of further calls with the tap off emit nothing and return the
  state unchanged.
\<close>

theorem closed_session_idempotent:
  assumes "closes_session K c i s" and "\<forall>j\<in>set js. \<not> tap_water_active j"
  shows "run_loop K c js (fst (loop K c i s)) = (fst (loop K c i s), [])"
  using closes_session_idle [OF assms(1)] assms(2) by (simp add: run_loop_idle_tap_off)

theorem closed_session_idempotent_witness:
  "closes_session spec_header timer_only (sample 220000 False)
     (initial\<lparr>timer_start := 1000, timer_pause := 201000, shower_state := True,
        old_shower_state := True\<rparr>) \<and>
   loop spec_header timer_only (sample 220000 False)
     (initial\<lparr>timer_start := 1000, timer_pause := 201000, shower_state := True,
        old_shower_state := True\<rparr>) =
     (initial\<lparr>duration := 195000\<rparr>, [Publish_shower_data 195 None, Publish_shower_active False]) \<and>
   run_loop spec_header timer_only [sample 221000 False, sample 222000 False, sample 900000 False]
     (initial\<lparr>duration := 195000\<rparr>) = (initial\<lparr>duration := 195000\<rparr>, [])"
proof -
  let ?s = "initial\<lparr>timer_start := 1000, timer_pause := 201000, shower_state := True,
        old_shower_state := True\<rparr>"
  have closes: "closes_session spec_header timer_only (sample 220000 False) ?s"
    by (simp add: closes_session_def spec_header_def timer_only_def sample_def initial_def)
  have ticks: "\<forall>j\<in>set [sample 221000 False, sample 222000 False, sample 900000 False].
      \<not> tap_water_active j"
    by (simp add: sample_def)
  have result: "loop spec_header timer_only (sample 220000 False) ?s =
      (initial\<lparr>duration := 195000\<rparr>, [Publish_shower_data 195 None, Publish_shower_active False])"
    by (simp add: loop_def tap_off_def publish_duration_def set_shower_state_def Let_def
        spec_header_def timer_only_def sample_def initial_def)
  show ?thesis
    using closes result closed_session_idempotent [OF closes ticks] by simp
qed

subsection \<open>The cold shot\<close>

lemma tap_off_not_cold:
  "\<not> doing_cold_shot s \<Longrightarrow> \<not> doing_cold_shot (fst (tap_off K i s))"
  by (simp add: tap_off_def Let_def case_prod_beta set_shower_state_fields
      publish_duration_fields)

lemma tap_on_starts_cold_shot:
  "\<not> doing_cold_shot s \<Longrightarrow> doing_cold_shot (fst (tap_on K c i s)) \<Longrightarrow>
   tap_on K c i s = shower_alert_start i s"
  by (cases "timer_start s = 0";
      cases "\<not> shower_state s \<and> uptime i - timer_start s > SHOWER_MIN_DURATION K")
     (auto simp add: tap_on_def Let_def set_shower_state_fields)

text \<open>The only way into a cold shot is \<open>shower_alert_start\<close>.\<close>

lemma loop_starts_cold_shot:
  assumes "\<not> doing_cold_shot s" and "doing_cold_shot (fst (loop K c i s))"
  shows "shower_timer c \<and> loop K c i s = shower_alert_start i s"
proof (cases "shower_timer c")
  case False
  with assms show ?thesis by (simp add: loop_def)
next
  case en: True
  show ?thesis
  proof (cases "tap_water_active i")
    case True
    with assms en tap_on_starts_cold_shot [of s K c i] show ?thesis by (simp add: loop_def)
  next
    case False
    with assms en tap_off_not_cold [of s K i] show ?thesis by (simp add: loop_def)
  qed
qed

lemma loop_during_cold_shot:
  "shower_timer c \<Longrightarrow> doing_cold_shot s \<Longrightarrow>
   uptime i - alert_timer_start s \<le> shower_alert_coldshot c \<Longrightarrow> loop K c i s = (s, [])"
  by (simp add: loop_def not_less [symmetric])

lemma run_loop_during_cold_shot:
  "shower_timer c \<Longrightarrow> doing_cold_shot s \<Longrightarrow>
   \<forall>i\<in>set mid. uptime i - alert_timer_start s \<le> shower_alert_coldshot c \<Longrightarrow>
   run_loop K c mid s = (s, [])"
  by (induction mid) (simp_all add: loop_during_cold_shot)

lemma loop_ends_cold_shot:
  "shower_timer c \<Longrightarrow> doing_cold_shot s \<Longrightarrow>
   uptime i - alert_timer_start s > shower_alert_coldshot c \<Longrightarrow>
   loop K c i s =
     (s\<lparr>doing_cold_shot := False, force_coldshot := False\<rparr>, [Call_wwtapactivated True])"
  by (simp add: loop_def shower_alert_stop_def)

text \<open>
  C5. Take a call \<open>i0\<close> of \<open>loop()\<close> that starts a cold shot, then any calls \<open>mid\<close> that
  come while no more than \<open>shower_alert_coldshot_\<close> has elapsed since the start of the
  cold shot, then a call \<open>fin\<close> that comes later than that. Over the whole run the boiler
  receives exactly \<open>wwtapactivated false\<close> followed by \<open>wwtapactivated true\<close>, and
  nothing is published. The result does not mention the tap readings of \<open>mid\<close> and
  \<open>fin\<close>: replacing them by any other readings \<open>g\<close> gives the same states and effects.
\<close>

theorem cold_shot_cycle:
  assumes "\<not> doing_cold_shot s" and "doing_cold_shot (fst (loop K c i0 s))"
    and "\<forall>i\<in>set mid. uptime i - uptime_alert i0 \<le> shower_alert_coldshot c"
    and "uptime fin - uptime_alert i0 > shower_alert_coldshot c"
  shows "run_loop K c (i0 # mid @ [fin]) s =
           (s\<lparr>doing_cold_shot := False, force_coldshot := False,
               alert_timer_start := uptime_alert i0\<rparr>,
            [Call_wwtapactivated False, Call_wwtapactivated True]) \<and>
         run_loop K c (i0 # map (\<lambda>i. i\<lparr>tap_water_active := g i\<rparr>) (mid @ [fin])) s =
           run_loop K c (i0 # mid @ [fin]) s"
proof -
  have en: "shower_timer c" and l0: "loop K c i0 s = shower_alert_start i0 s"
    using loop_starts_cold_shot [OF assms(1,2)] by simp_all
  define s1 where "s1 = fst (shower_alert_start i0 s)"
  have s1: "doing_cold_shot s1" "alert_timer_start s1 = uptime_alert i0"
    by (simp_all add: s1_def shower_alert_start_def)
  have cyc: "run_loop K c (i0 # xs @ [y]) s =
           (s\<lparr>doing_cold_shot := False, force_coldshot := False,
               alert_timer_start := uptime_alert i0\<rparr>,
            [Call_wwtapactivated False, Call_wwtapactivated True])"
    if "\<forall>i\<in>set xs. uptime i - uptime_alert i0 \<le> shower_alert_coldshot c"
      and "uptime y - uptime_alert i0 > shower_alert_coldshot c" for xs y
  proof -
    have "run_loop K c xs s1 = (s1, [])"
      using that(1) s1 en by (simp add: run_loop_during_cold_shot)
    moreover have "loop K c y s1 =
        (s1\<lparr>doing_cold_shot := False, force_coldshot := False\<rparr>, [Call_wwtapactivated True])"
      using that(2) s1 en by (simp add: loop_ends_cold_shot)
    ultimately show ?thesis
      by (simp add: run_loop_append l0 s1_def shower_alert_start_def)
  qed
  have "run_loop K c
          (i0 # map (\<lambda>i. i\<lparr>tap_water_active := g i\<rparr>) mid @ [fin\<lparr>tap_water_active := g fin\<rparr>]) s =
           (s\<lparr>doing_cold_shot := False, force_coldshot := False,
               alert_timer_start := uptime_alert i0\<rparr>,
            [Call_wwtapactivated False, Call_wwtapactivated True])"
    by (rule cyc) (use assms(3,4) in simp_all)
  with cyc [OF assms(3,4)] show ?thesis by simp
qed

theorem cold_shot_cycle_witness:
  "\<not> doing_cold_shot (initial\<lparr>timer_start := 1000, shower_state := True, old_shower_state := True\<rparr>) \<and>
   doing_cold_shot (fst (loop spec_header timer_and_alert (sample 602000 True)
     (initial\<lparr>timer_start := 1000, shower_state := True, old_shower_state := True\<rparr>))) \<and>
   snd (run_loop spec_header timer_and_alert
     [sample 602000 True, sample 603000 True, sample 607000 False, sample 612000 True,
      sample 613000 False]
     (initial\<lparr>timer_start := 1000, shower_state := True, old_shower_state := True\<rparr>)) =
     [Call_wwtapactivated False, Call_wwtapactivated True]"
proof -
  let ?s = "initial\<lparr>timer_start := 1000, shower_state := True, old_shower_state := True\<rparr>"
  have a: "\<not> doing_cold_shot ?s"
    by (simp add: initial_def)
  have b: "doing_cold_shot (fst (loop spec_header timer_and_alert (sample 602000 True) ?s))"
    by (simp add: loop_def tap_on_def shower_alert_start_def initial_def sample_def
        timer_and_alert_def spec_header_def)
  have c: "\<forall>i\<in>set [sample 603000 True, sample 607000 False, sample 612000 True].
      uptime i - uptime_alert (sample 602000 True) \<le> shower_alert_coldshot timer_and_alert"
    by (simp add: sample_def timer_and_alert_def)
  have d: "uptime (sample 613000 False) - uptime_alert (sample 602000 True)
      > shower_alert_coldshot timer_and_alert"
    by (simp add: sample_def timer_and_alert_def)
  show ?thesis
    using a b cold_shot_cycle [OF a b c d] by simp
qed

text \<open>
  C10. In a recognised shower with the alert enabled, let the call \<open>i0\<close> find the alert
  trigger exceeded, so that a cold shot starts, and let the call \<open>i1\<close> end the cold shot.
  After \<open>i1\<close> the shower is still recognised and its start time is unchanged. If at the
  next call \<open>i2\<close> the tap is on and the time measured since the start of the session
  has not gone back (the counter has not wrapped past the start), the trigger is still
  exceeded and \<open>i2\<close> starts the next cold shot at once: the boiler sees false, true,
  false.
\<close>

theorem cold_shot_repeats:
  assumes "shower_timer c" and "shower_alert c"
    and "\<not> doing_cold_shot s" and "shower_state s" and "timer_start s \<noteq> 0"
    and "tap_water_active i0" and "uptime i0 - timer_start s > shower_alert_trigger c"
    and "uptime i1 - uptime_alert i0 > shower_alert_coldshot c"
    and "tap_water_active i2" and "uptime i0 - timer_start s \<le> uptime i2 - timer_start s"
  shows "run_loop K c [i0, i1] s =
           (s\<lparr>doing_cold_shot := False, force_coldshot := False,
               alert_timer_start := uptime_alert i0\<rparr>,
            [Call_wwtapactivated False, Call_wwtapactivated True]) \<and>
         uptime i2 - timer_start s > shower_alert_trigger c \<and>
         run_loop K c [i0, i1, i2] s =
           (s\<lparr>doing_cold_shot := True, force_coldshot := False,
               alert_timer_start := uptime_alert i2\<rparr>,
            [Call_wwtapactivated False, Call_wwtapactivated True, Call_wwtapactivated False])"
proof -
  have c2: "uptime i2 - timer_start s > shower_alert_trigger c"
    using assms(7,10) by simp
  have l0: "loop K c i0 s = shower_alert_start i0 s"
    using assms(1-7) by (simp add: loop_def tap_on_def)
  define s1 where "s1 = fst (shower_alert_start i0 s)"
  have l1: "loop K c i1 s1 =
      (s1\<lparr>doing_cold_shot := False, force_coldshot := False\<rparr>, [Call_wwtapactivated True])"
    using assms(1,8) by (simp add: s1_def loop_ends_cold_shot shower_alert_start_def)
  define s2 where "s2 = s1\<lparr>doing_cold_shot := False, force_coldshot := False\<rparr>"
  have l2: "loop K c i2 s2 = shower_alert_start i2 s2"
    using assms(1-5,9) c2 by (simp add: s2_def s1_def loop_def tap_on_def shower_alert_start_def)
  show ?thesis
    using l0 l1 l2 c2
    by (simp add: s2_def s1_def shower_alert_start_def)
qed

theorem cold_shot_repeats_witness:
  "shower_timer timer_and_alert \<and> shower_alert timer_and_alert \<and>
   uptime (sample 602000 True) - 1000 > shower_alert_trigger timer_and_alert \<and>
   uptime (sample 613000 True) - uptime_alert (sample 602000 True)
     > shower_alert_coldshot timer_and_alert \<and>
   uptime (sample 602000 True) - 1000 \<le> uptime (sample 614000 True) - (1000 :: u32) \<and>
   run_loop spec_header timer_and_alert
     [sample 602000 True, sample 613000 True, sample 614000 True]
     (initial\<lparr>timer_start := 1000, shower_state := True, old_shower_state := True\<rparr>) =
     (initial\<lparr>timer_start := 1000, shower_state := True, old_shower_state := True,
        doing_cold_shot := True, alert_timer_start := 614000\<rparr>,
      [Call_wwtapactivated False, Call_wwtapactivated True, Call_wwtapactivated False])"
  using cold_shot_repeats [where c = timer_and_alert and K = spec_header
      and s = "initial\<lparr>timer_start := 1000, shower_state := True, old_shower_state := True\<rparr>"
      and ?i0.0 = "sample 602000 True" and ?i1.0 = "sample 613000 True"
      and ?i2.0 = "sample 614000 True"]
  by (simp add: timer_and_alert_def sample_def initial_def)

subsection \<open>Elapsed times and the wrap-around of the counter\<close>

text \<open>
  The difference of two \<open>uint32_t\<close> readings of a clock that went from \<open>T0\<close> to \<open>T1\<close>
  is the time that passed, modulo \<open>2 ^ 32\<close>, however often the counter wrapped.
\<close>

lemma unat_elapsed:
  "T0 \<le> T1 \<Longrightarrow> unat ((word_of_nat T1 :: u32) - word_of_nat T0) = (T1 - T0) mod 2 ^ 32"
  by (simp add: of_nat_diff [symmetric] unat_of_nat del: of_nat_diff)

text \<open>
  C9. Let the clock read \<open>T0\<close> when a timestamp was stored and \<open>T1 \<ge> T0\<close> at the
  current call of \<open>loop()\<close>, both counted in milliseconds without bound, the members
  holding them modulo \<open>2 ^ 32\<close>. Then each of the four decisions of \<open>loop()\<close> is taken
  on the true elapsed time \<open>T1 - T0\<close> modulo \<open>2 ^ 32\<close>:
  \<^item> the shower is recognised iff it exceeds \<open>SHOWER_MIN_DURATION\<close>;
  \<^item> the alert starts a cold shot iff it exceeds \<open>shower_alert_trigger_\<close>;
  \<^item> the session is closed iff the pause exceeds \<open>SHOWER_PAUSE_TIME\<close>;
  \<^item> the cold shot ends iff it exceeds \<open>shower_alert_coldshot_\<close>.
\<close>

theorem elapsed_wraparound:
  assumes "T0 \<le> T1" and "uptime i = word_of_nat T1" and "shower_timer c"
  shows "(\<not> doing_cold_shot s \<and> tap_water_active i \<and> timer_start s = word_of_nat T0 \<and>
          timer_start s \<noteq> 0 \<and> \<not> shower_state s \<longrightarrow>
            (shower_state (fst (loop K c i s)) \<longleftrightarrow>
             unat (SHOWER_MIN_DURATION K) < (T1 - T0) mod 2 ^ 32)) \<and>
         (\<not> doing_cold_shot s \<and> tap_water_active i \<and> timer_start s = word_of_nat T0 \<and>
          timer_start s \<noteq> 0 \<and> shower_state s \<and> shower_alert c \<and> \<not> force_coldshot s \<longrightarrow>
            (doing_cold_shot (fst (loop K c i s)) \<longleftrightarrow>
             unat (shower_alert_trigger c) < (T1 - T0) mod 2 ^ 32)) \<and>
         (\<not> doing_cold_shot s \<and> \<not> tap_water_active i \<and> timer_pause s = word_of_nat T0 \<and>
          timer_pause s \<noteq> 0 \<longrightarrow>
            (timer_pause (fst (loop K c i s)) = 0 \<longleftrightarrow>
             unat (SHOWER_PAUSE_TIME K) < (T1 - T0) mod 2 ^ 32)) \<and>
         (doing_cold_shot s \<and> alert_timer_start s = word_of_nat T0 \<longrightarrow>
            (\<not> doing_cold_shot (fst (loop K c i s)) \<longleftrightarrow>
             unat (shower_alert_coldshot c) < (T1 - T0) mod 2 ^ 32))"
proof -
  have e: "unat (uptime i - word_of_nat T0) = (T1 - T0) mod 2 ^ 32"
    using assms(1,2) by (simp add: unat_elapsed)
  have lt: "a < uptime i - word_of_nat T0 \<longleftrightarrow> unat a < (T1 - T0) mod 2 ^ 32" for a :: u32
    by (simp add: word_less_nat_alt e)
  show ?thesis
    using assms(3)
    by (auto simp add: loop_def tap_on_def tap_off_def Let_def case_prod_beta
        set_shower_state_fields shower_alert_start_def shower_alert_stop_def lt)
qed

text \<open>
  The witness lets the counter wrap between the two readings: the timestamp was stored
  at 4294966296 ms (one second before the counter wraps) and the clock is read
  201 s or 701 s later, when the counter shows 200000 or 700000.
\<close>

theorem elapsed_wraparound_witness:
  "shower_state (fst (loop spec_header timer_and_alert (sample 200000 True)
     (initial\<lparr>timer_start := 4294966296\<rparr>))) \<and>
   doing_cold_shot (fst (loop spec_header timer_and_alert (sample 700000 True)
     (initial\<lparr>timer_start := 4294966296, shower_state := True\<rparr>))) \<and>
   timer_pause (fst (loop spec_header timer_and_alert (sample 200000 False)
     (initial\<lparr>timer_start := 5, timer_pause := 4294966296\<rparr>))) = 0 \<and>
   \<not> doing_cold_shot (fst (loop spec_header timer_and_alert (sample 200000 False)
     (initial\<lparr>doing_cold_shot := True, alert_timer_start := 4294966296\<rparr>)))"
  using
    elapsed_wraparound [where ?T0.0 = 4294966296 and ?T1.0 = 4295167296
      and i = "sample 200000 True" and c = timer_and_alert and K = spec_header
      and s = "initial\<lparr>timer_start := 4294966296\<rparr>"]
    elapsed_wraparound [where ?T0.0 = 4294966296 and ?T1.0 = 4295667296
      and i = "sample 700000 True" and c = timer_and_alert and K = spec_header
      and s = "initial\<lparr>timer_start := 4294966296, shower_state := True\<rparr>"]
    elapsed_wraparound [where ?T0.0 = 4294966296 and ?T1.0 = 4295167296
      and i = "sample 200000 False" and c = timer_and_alert and K = spec_header
      and s = "initial\<lparr>timer_start := 5, timer_pause := 4294966296\<rparr>"]
    elapsed_wraparound [where ?T0.0 = 4294966296 and ?T1.0 = 4295167296
      and i = "sample 200000 False" and c = timer_and_alert and K = spec_header
      and s = "initial\<lparr>doing_cold_shot := True, alert_timer_start := 4294966296\<rparr>"]
  by (simp add: sample_def timer_and_alert_def spec_header_def initial_def)

subsection \<open>A short tap is not a shower\<close>

lemma tap_off_never_publishes_on:
  "Publish_shower_active True \<notin> set (snd (tap_off K i s))"
  using set_shower_state_publishes [of False False i]
  by (auto simp add: tap_off_def Let_def case_prod_beta publish_duration_effects)

lemma tap_on_publishes_on:
  "Publish_shower_active True \<in> set (snd (tap_on K c i s)) \<Longrightarrow>
   timer_start s \<noteq> 0 \<and> \<not> shower_state s \<and> uptime i - timer_start s > SHOWER_MIN_DURATION K"
  by (cases "timer_start s = 0";
      cases "\<not> shower_state s \<and> uptime i - timer_start s > SHOWER_MIN_DURATION K")
     (auto simp add: tap_on_def Let_def shower_alert_start_def split: if_splits)

text \<open>
  The state "on" is published only by a call that finds the tap on and more than
  \<open>SHOWER_MIN_DURATION\<close> elapsed since \<open>timer_start_\<close>.
\<close>

lemma loop_publishes_on:
  "Publish_shower_active True \<in> set (snd (loop K c i s)) \<Longrightarrow>
   tap_water_active i \<and> timer_start s \<noteq> 0 \<and> uptime i - timer_start s > SHOWER_MIN_DURATION K"
  using tap_off_never_publishes_on [of K i s] tap_on_publishes_on [of K c i s]
  by (auto simp add: loop_def shower_alert_stop_def split: if_splits)

lemma tap_on_timer_start:
  "timer_start s \<noteq> 0 \<Longrightarrow> timer_start (fst (tap_on K c i s)) = timer_start s"
  by (simp add: tap_on_def Let_def set_shower_state_fields shower_alert_start_def)

lemma loop_timer_start_on:
  "tap_water_active i \<Longrightarrow> timer_start s \<noteq> 0 \<Longrightarrow>
   timer_start (fst (loop K c i s)) = timer_start s"
  by (simp add: loop_def tap_on_timer_start shower_alert_stop_def)

lemma run_loop_short_on:
  "timer_start s \<noteq> 0 \<Longrightarrow>
   \<forall>i\<in>set on. tap_water_active i \<and> uptime i - timer_start s < SHOWER_MIN_DURATION K \<Longrightarrow>
   Publish_shower_active True \<notin> set (snd (run_loop K c on s)) \<and>
   timer_start (fst (run_loop K c on s)) = timer_start s"
proof (induction on arbitrary: s)
  case Nil
  then show ?case by simp
next
  case (Cons i on)
  have "Publish_shower_active True \<notin> set (snd (loop K c i s))"
    using Cons.prems loop_publishes_on [of K c i s] by auto
  moreover have "timer_start (fst (loop K c i s)) = timer_start s"
    using Cons.prems by (simp add: loop_timer_start_on)
  ultimately show ?case
    using Cons.IH [of "fst (loop K c i s)"] Cons.prems
    by (simp add: case_prod_beta)
qed

lemma run_loop_off_never_publishes_on:
  "\<forall>i\<in>set off. \<not> tap_water_active i \<Longrightarrow>
   Publish_shower_active True \<notin> set (snd (run_loop K c off s))"
proof (induction off arbitrary: s)
  case Nil
  then show ?case by simp
next
  case (Cons i off)
  then show ?case
    using loop_publishes_on [of K c i s] by (auto simp add: case_prod_beta)
qed

text \<open>
  C6. Start with no session and no cold shot in progress. Let the tap be read on at the
  call \<open>i0\<close> (at a non-zero uptime, zero being the value for "unset") and at the calls
  \<open>on\<close> that follow, each of them less than \<open>SHOWER_MIN_DURATION\<close> after \<open>i0\<close>, and
  let it be read off at all the calls \<open>off\<close> after that. Then the state "on"
  (\<open>shower_active\<close> true) is never published during the run, whatever the settings.
\<close>

theorem short_tap_never_shower:
  assumes "timer_start s = 0" and "\<not> doing_cold_shot s"
    and "tap_water_active i0" and "uptime i0 \<noteq> 0"
    and "\<forall>i\<in>set on. tap_water_active i \<and> uptime i - uptime i0 < SHOWER_MIN_DURATION K"
    and "\<forall>i\<in>set off. \<not> tap_water_active i"
  shows "Publish_shower_active True \<notin> set (snd (run_loop K c (i0 # on @ off) s))"
proof (cases "shower_timer c")
  case False
  then have "run_loop K c (i0 # on @ off) s = (s, [])" by (rule run_loop_disabled)
  then show ?thesis by (simp only: snd_conv) simp
next
  case True
  define s1 where "s1 = fst (loop K c i0 s)"
  have l0: "snd (loop K c i0 s) = []" "timer_start s1 = uptime i0"
    using assms(1-4) True by (simp_all add: s1_def loop_def tap_on_def)
  have "Publish_shower_active True \<notin> set (snd (run_loop K c on s1)) \<and>
        timer_start (fst (run_loop K c on s1)) = timer_start s1"
    by (rule run_loop_short_on) (use assms(4,5) l0 in simp_all)
  moreover have
    "Publish_shower_active True \<notin> set (snd (run_loop K c off (fst (run_loop K c on s1))))"
    by (rule run_loop_off_never_publishes_on) (rule assms(6))
  ultimately show ?thesis
    using l0 by (simp add: run_loop_append case_prod_beta s1_def)
qed

theorem short_tap_never_shower_witness:
  "timer_start initial = 0 \<and> \<not> doing_cold_shot initial \<and>
   list_all (\<lambda>i. tap_water_active i \<and>
      uptime i - uptime (sample 1000 True) < SHOWER_MIN_DURATION spec_header)
     [sample 60000 True, sample 180999 True] \<and>
   Publish_shower_active True \<notin> set (snd (run_loop spec_header timer_only
     ([sample 1000 True, sample 60000 True, sample 180999 True] @
      [sample 181000 False, sample 190000 False, sample 200000 False]) initial)) \<and>
   snd (run_loop spec_header timer_only
     ([sample 1000 True, sample 60000 True, sample 180999 True] @
      [sample 181000 False, sample 190000 False, sample 200000 False]) initial) = []"
proof -
  have a: "timer_start initial = 0" "\<not> doing_cold_shot initial"
    by (simp_all add: initial_def)
  have b: "tap_water_active (sample 1000 True)" "uptime (sample 1000 True) \<noteq> 0"
    by (simp_all add: sample_def)
  have c: "\<forall>i\<in>set [sample 60000 True, sample 180999 True].
      tap_water_active i \<and> uptime i - uptime (sample 1000 True) < SHOWER_MIN_DURATION spec_header"
    by (simp add: sample_def spec_header_def)
  have d: "\<forall>i\<in>set [sample 181000 False, sample 190000 False, sample 200000 False].
      \<not> tap_water_active i"
    by (simp add: sample_def)
  have e: "snd (run_loop spec_header timer_only
     ([sample 1000 True, sample 60000 True, sample 180999 True] @
      [sample 181000 False, sample 190000 False, sample 200000 False]) initial) = []"
    by (simp add: loop_def tap_on_def tap_off_def publish_duration_def set_shower_state_def
        Let_def spec_header_def timer_only_def sample_def initial_def)
  show ?thesis
    using a c e short_tap_never_shower [OF a b c d, of timer_only] by simp
qed

subsection \<open>A whole session\<close>













subsection \<open>Where the code departs from the description\<close>

text \<open>
  C3. A pause shorter than \<open>SHOWER_PAUSE_TIME\<close> should not end the session, and the
  duration reported at the end should run across the pause. The code records the pause in
  \<open>timer_pause_\<close> (line 92) but clears it only when a new session starts (line 73), not
  when the tap comes back on. So after a short pause the session does go on, but the
  stale \<open>timer_pause_\<close> stays: the first call that reads the tap off again, more than
  \<open>SHOWER_PAUSE_TIME\<close> after the old pause, closes the session at once, and the
  duration it reports stops at the old pause.

  In the run below the tap is on from 1 s to 250 s, off for 5 s, on again until 401 s.
  After the pause the session is still open, with the pause timer still at 250 s. The
  call at 401 s closes the session and reports 244 s, the time up to the pause. The same
  run with the tap read on at 250 s, closed after a last pause of 16 s, reports 395 s.
\<close>

theorem pause_truncates_duration:
  "run_loop spec_header timer_only
     [sample 1000 True, sample 200000 True, sample 250000 False, sample 255000 True] initial =
     (initial\<lparr>timer_start := 1000, timer_pause := 250000, shower_state := True,
        old_shower_state := True\<rparr>, [Publish_shower_active True]) \<and>
   snd (run_loop spec_header timer_only
     [sample 1000 True, sample 200000 True, sample 250000 False, sample 255000 True,
      sample 400000 True, sample 401000 False] initial) =
     [Publish_shower_active True, Publish_shower_data 244 None, Publish_shower_active False] \<and>
   snd (run_loop spec_header timer_only
     [sample 1000 True, sample 200000 True, sample 250000 True, sample 255000 True,
      sample 400000 True, sample 401000 False, sample 417000 False] initial) =
     [Publish_shower_active True, Publish_shower_data 395 None, Publish_shower_active False]"
  by (simp add: loop_def tap_on_def tap_off_def publish_duration_def set_shower_state_def
      Let_def spec_header_def timer_only_def sample_def initial_def)

text \<open>
  C2. A cold shot should run only during a recognised shower; the coldshot command
  refuses a request when \<open>shower_state_\<close> is false (line 43). But \<open>loop()\<close> tests
  \<open>force_coldshot\<close> at line 85 without looking at \<open>shower_state_\<close>, and the reset block
  of lines 122 to 128 does not clear the flag. A request accepted during a pause of a
  recognised shower therefore survives the end of that shower and fires at the second
  call of the next session, when nothing is recognised yet.

  The run starts from the state that \<open>start()\<close> leaves. The shower is recognised at
  200 s, the tap goes off at 201 s, the command is accepted, the session is closed at
  220 s; the tap comes on again at 300 s, and at 301 s the boiler is told to cut the hot
  water while \<open>shower_state_\<close> is false.
\<close>

theorem cold_shot_without_shower:
  "run spec_header timer_only
     [Loop (sample 1000 True), Loop (sample 200000 True), Loop (sample 201000 False), Coldshot,
      Loop (sample 220000 False), Loop (sample 300000 True), Loop (sample 301000 True)]
     (fst (start timer_only (sample 500 False) initial)) =
     (initial\<lparr>timer_start := 300000, alert_timer_start := 301000, doing_cold_shot := True,
        shower_state := False\<rparr>,
      [Publish_shower_active True, Publish_shower_data 195 None, Publish_shower_active False,
       Call_wwtapactivated False])"
  by (simp add: loop_def tap_on_def tap_off_def publish_duration_def set_shower_state_def
      shower_alert_start_def coldshot_cmd_def start_def
      Let_def spec_header_def timer_only_def sample_def initial_def)

text \<open>
  The same happens without any command when the alert trigger is set below
  \<open>SHOWER_MIN_DURATION\<close>, here to one minute: the test of line 85 is the \<open>else\<close> of the
  test of line 80, so it is also reached while the shower is not recognised.
\<close>

lemma cold_shot_before_recognition:
  "run_loop spec_header (timer_and_alert\<lparr>shower_alert_trigger := 60000\<rparr>)
     [sample 1000 True, sample 62000 True] initial =
     (initial\<lparr>timer_start := 1000, alert_timer_start := 62000, doing_cold_shot := True,
        shower_state := False\<rparr>,
      [Call_wwtapactivated False])"
  by (simp add: loop_def tap_on_def shower_alert_start_def
      Let_def spec_header_def timer_and_alert_def sample_def initial_def)

end
